theory Spec2Isabelle
  imports Main "HOL-Library.Word"
begin

section \<open>pronound: a shallow embedding of the daemon and its client\<close>

text \<open>
  The daemon (\<^verbatim>\<open>pronound.c\<close>) answers one identity token per connection with the
  first line of the user's preference file; the client (\<^verbatim>\<open>pronoun.c\<close>) sends one
  token and prints the answer. C strings are modelled as \<open>string\<close> (a list of bytes,
  the terminating NUL left out), the passwd database as a list of entries in file
  order, the file system as a partial map from paths to file contents, and the global
  \<^verbatim>\<open>config\<close> as a record passed to and returned from the functions that read and
  write it. A dereference of a NULL pointer, an out-of-range \<^verbatim>\<open>atoi\<close> and an access
  past the end of a buffer have no defined result in C; the model returns them as
  errors (\<open>Inl\<close>). Every \<^verbatim>\<open>malloc\<close> and \<^verbatim>\<open>strdup\<close> is taken to succeed.
\<close>

subsection \<open>Characters and C library functions\<close>

datatype error = NullDeref | IntOverflow | OutOfBounds

definition NL :: char where
  "NL = CHR 0x0A"

definition NUL :: char where
  "NUL = CHR 0x00"

text \<open>The four characters both loops of \<^verbatim>\<open>strip\<close> compare against.\<close>

definition is_ws :: "char \<Rightarrow> bool" where
  "is_ws c = (c = CHR '' '' \<or> c = CHR 0x09 \<or> c = CHR 0x0A \<or> c = CHR 0x0D)"

text \<open>\<^verbatim>\<open>*str < '0' || *str > '9'\<close> negated: a decimal digit, whatever the sign of \<^verbatim>\<open>char\<close>.\<close>

definition isdigit :: "char \<Rightarrow> bool" where
  "isdigit c = (48 \<le> (of_char c :: int) \<and> (of_char c :: int) \<le> 57)"

text \<open>\<^verbatim>\<open>isspace\<close> in the C locale, which \<^verbatim>\<open>atoi\<close> skips first.\<close>

definition isspace :: "char \<Rightarrow> bool" where
  "isspace c = (c = CHR '' '' \<or> c = CHR 0x09 \<or> c = CHR 0x0A \<or> c = CHR 0x0B
      \<or> c = CHR 0x0C \<or> c = CHR 0x0D)"

definition digit_val :: "char \<Rightarrow> int" where
  "digit_val c = of_char c - 48"

definition dec_val :: "string \<Rightarrow> int" where
  "dec_val ds = foldl (\<lambda>acc c. 10 * acc + digit_val c) 0 ds"

definition INT_MIN :: int where
  "INT_MIN = - (2 ^ 31)"

definition INT_MAX :: int where
  "INT_MAX = 2 ^ 31 - 1"

text \<open>
  \<^verbatim>\<open>atoi\<close>: white space, an optional sign, then the longest run of digits (none gives
  0). C leaves the behaviour undefined when the value does not fit an \<^verbatim>\<open>int\<close>
  (C11 7.22.1); the model returns \<open>None\<close> there.
\<close>

definition atoi :: "string \<Rightarrow> int option" where
  "atoi s =
     (let s1 = dropWhile isspace s;
          neg = (case s1 of [] \<Rightarrow> False | c # _ \<Rightarrow> c = CHR ''-'');
          s2 = (case s1 of [] \<Rightarrow> []
                | c # cs \<Rightarrow> if c = CHR ''-'' \<or> c = CHR ''+'' then cs else s1);
          v = dec_val (takeWhile isdigit s2);
          r = (if neg then - v else v)
      in if INT_MIN \<le> r \<and> r \<le> INT_MAX then Some r else None)"

text \<open>A \<^verbatim>\<open>char\<close> buffer read as a C string: the bytes before the first NUL.\<close>

definition c_str :: "string \<Rightarrow> string" where
  "c_str buf = takeWhile (\<lambda>c. c \<noteq> NUL) buf"

text \<open>\<^verbatim>\<open>snprintf(buf, sz, ...)\<close> keeps at most \<open>sz - 1\<close> bytes of the formatted text.\<close>

definition snprintf :: "nat \<Rightarrow> string \<Rightarrow> string" where
  "snprintf sz s = take (sz - 1) s"

text \<open>The bytes up to and including the first newline.\<close>

fun first_line :: "string \<Rightarrow> string" where
  "first_line [] = []"
| "first_line (c # cs) = (if c = NL then [c] else c # first_line cs)"

text \<open>
  \<^verbatim>\<open>fgets(buf, sz, file)\<close> on the unread rest of a file: \<open>None\<close> at end of file,
  otherwise the bytes read (at most \<open>sz - 1\<close>, stopping after a newline) and the
  rest still unread.
\<close>

definition fgets :: "nat \<Rightarrow> string \<Rightarrow> (string \<times> string) option" where
  "fgets sz rest =
     (if rest = [] then None
      else let l = take (sz - 1) (first_line rest) in Some (l, drop (length l) rest))"

subsection \<open>The identity database and the file system\<close>

type_synonym uid_t = "32 word"

record passwd =
  pw_name :: string
  pw_uid :: uid_t
  pw_dir :: string

text \<open>\<^verbatim>\<open>getpwuid\<close> and \<^verbatim>\<open>getpwnam\<close> return the first matching entry, or NULL.\<close>

definition getpwuid :: "passwd list \<Rightarrow> uid_t \<Rightarrow> passwd option" where
  "getpwuid db uid = find (\<lambda>pw. pw_uid pw = uid) db"

definition getpwnam :: "passwd list \<Rightarrow> string \<Rightarrow> passwd option" where
  "getpwnam db name = find (\<lambda>pw. pw_name pw = name) db"

text \<open>A path that cannot be opened for reading is mapped to \<open>None\<close>.\<close>

type_synonym filesystem = "string \<Rightarrow> string option"

definition fopen :: "filesystem \<Rightarrow> string \<Rightarrow> string option" where
  "fopen fs path = fs path"

subsection \<open>The daemon's configuration\<close>

record Config =
  daemonise :: bool
  default_pronouns :: string
  file_path :: string
  port :: int
  daemon_user :: string

definition config :: Config where
  "config = \<lparr>daemonise = False,
             default_pronouns = ''not specified'',
             file_path = ''.pronouns'',
             port = 731,
             daemon_user = ''_pronound''\<rparr>"

subsection \<open>\<^verbatim>\<open>is_number\<close>, \<^verbatim>\<open>strip\<close>, \<^verbatim>\<open>resolve\<close>, \<^verbatim>\<open>handle_request\<close>\<close>

text \<open>The \<^verbatim>\<open>while (*str)\<close> loop of \<^verbatim>\<open>is_number\<close>.\<close>

fun all_digits :: "string \<Rightarrow> bool" where
  "all_digits [] = True"
| "all_digits (c # cs) = (if \<not> isdigit c then False else all_digits cs)"

definition is_number :: "string \<Rightarrow> bool" where
  "is_number str =
     (case str of [] \<Rightarrow> False
      | c # cs \<Rightarrow>
          let str' = (if c = CHR ''-'' then cs else str)
          in if str' = [] then False else all_digits str')"

text \<open>The first loop of \<^verbatim>\<open>strip\<close>: advance \<^verbatim>\<open>str\<close> over leading white space.\<close>

fun skip_leading :: "string \<Rightarrow> string" where
  "skip_leading [] = []"
| "skip_leading (c # cs) = (if is_ws c then skip_leading cs else c # cs)"

text \<open>
  The second loop: \<^verbatim>\<open>end\<close>, as an index into \<^verbatim>\<open>str\<close>, moves down while it is above
  0 and points at white space.
\<close>

fun back_trailing :: "string \<Rightarrow> nat \<Rightarrow> nat" where
  "back_trailing str 0 = 0"
| "back_trailing str (Suc e) = (if is_ws (str ! Suc e) then back_trailing str e else Suc e)"

text \<open>
  When nothing is left after the first loop, \<^verbatim>\<open>end\<close> starts below \<^verbatim>\<open>str\<close>, the
  second loop does not run and \<^verbatim>\<open>len\<close> is 0.
\<close>

definition strip :: "string \<Rightarrow> string" where
  "strip s =
     (let str = skip_leading s
      in if str = [] then []
         else take (back_trailing str (length str - 1) + 1) str)"

text \<open>The bytes \<^verbatim>\<open>strip\<close> allocates for its result: \<^verbatim>\<open>malloc(len + 1)\<close>.\<close>

definition strip_alloc :: "string \<Rightarrow> nat" where
  "strip_alloc s = length (strip s) + 1"

text \<open>
  \<^verbatim>\<open>resolve\<close> returns the uid and the \<^verbatim>\<open>failed\<close> flag it sets. The line it prints
  on standard output for an unknown name is not part of any response and is left out.
\<close>

definition resolve :: "passwd list \<Rightarrow> string \<Rightarrow> error + (uid_t \<times> bool)" where
  "resolve db input =
     (if is_number input then
        (case atoi input of
           None \<Rightarrow> Inl IntOverflow
         | Some n \<Rightarrow>
             let uid = (word_of_int n :: uid_t)
             in (case getpwuid db uid of
                   Some pw \<Rightarrow> Inr (pw_uid pw, False)
                 | None \<Rightarrow> Inr (0, True)))
      else
        (case getpwnam db input of
           Some pw \<Rightarrow> Inr (pw_uid pw, False)
         | None \<Rightarrow> Inr (0, True)))"

definition user_not_found :: string where
  "user_not_found = ''user not found'' @ [NL]"

text \<open>
  The three lines of \<^verbatim>\<open>handle_request\<close> that add the newline to \<^verbatim>\<open>cleaned\<close>, a
  buffer of \<open>cap\<close> allocated bytes: \<^verbatim>\<open>'\n'\<close> is written at index \<open>len\<close>, over the
  terminating NUL, and a new NUL at index \<open>len + 1\<close>, which has to lie inside the
  buffer.
\<close>

definition append_newline :: "nat \<Rightarrow> string \<Rightarrow> error + string" where
  "append_newline cap cleaned =
     (let len = length cleaned
      in if len + 1 < cap then Inr (cleaned @ [NL]) else Inl OutOfBounds)"

text \<open>
  \<^verbatim>\<open>handle_request\<close>. The buffer it adds the newline to is the one \<^verbatim>\<open>strip\<close>
  returned, of \<open>len + 1\<close> bytes.
\<close>

definition handle_request :: "passwd list \<Rightarrow> filesystem \<Rightarrow> Config \<Rightarrow> string \<Rightarrow> error + string" where
  "handle_request db fs cfg input =
     (case resolve db input of
        Inl e \<Rightarrow> Inl e
      | Inr (uid, failed) \<Rightarrow>
          if failed then Inr user_not_found
          else
            (case getpwuid db uid of
               None \<Rightarrow> Inr user_not_found
             | Some pw \<Rightarrow>
                 let path = snprintf 256 (pw_dir pw @ ''/'' @ file_path cfg)
                 in (case fopen fs path of
                       None \<Rightarrow> Inr (default_pronouns cfg)
                     | Some file \<Rightarrow>
                         (case fgets 256 file of
                            Some (pronouns, _) \<Rightarrow>
                              let cleaned = strip (c_str pronouns)
                              in append_newline (strip_alloc (c_str pronouns)) cleaned
                          | None \<Rightarrow> Inr (default_pronouns cfg)))))"

subsection \<open>\<^verbatim>\<open>split_first_space\<close> and \<^verbatim>\<open>parse_config\<close>\<close>

text \<open>
  \<^verbatim>\<open>split_first_space\<close> returns its success flag, \<^verbatim>\<open>*first\<close> and \<^verbatim>\<open>*rest\<close>; \<open>None\<close>
  is the NULL it stores in \<^verbatim>\<open>*rest\<close> when the line has no space.
\<close>

definition split_first_space :: "string \<Rightarrow> bool \<times> string \<times> string option" where
  "split_first_space str =
     (if CHR '' '' \<in> set str
      then (True, takeWhile (\<lambda>c. c \<noteq> CHR '' '') str,
            Some (drop 1 (dropWhile (\<lambda>c. c \<noteq> CHR '' '') str)))
      else (True, str, None))"

text \<open>
  The chain of \<^verbatim>\<open>strcmp\<close> tests in the loop of \<^verbatim>\<open>parse_config\<close>. Only the
  \<^verbatim>\<open>daemonise\<close> branch tests \<^verbatim>\<open>value\<close> before it reads it; \<^verbatim>\<open>strlen\<close>,
  \<^verbatim>\<open>strdup\<close> and \<^verbatim>\<open>atoi\<close> of the other branches read through the pointer.
\<close>

definition apply_key :: "Config \<Rightarrow> string \<Rightarrow> string option \<Rightarrow> error + Config" where
  "apply_key cfg key val =
     (if key = ''daemonise'' then
        Inr (cfg\<lparr>daemonise :=
               (case val of None \<Rightarrow> False | Some v \<Rightarrow> v = ''true'' \<or> v = ''1'')\<rparr>)
      else if key = ''defaults'' then
        (case val of None \<Rightarrow> Inl NullDeref
         | Some v \<Rightarrow> Inr (cfg\<lparr>default_pronouns := v @ [NL]\<rparr>))
      else if key = ''file'' then
        (case val of None \<Rightarrow> Inl NullDeref
         | Some v \<Rightarrow> Inr (cfg\<lparr>file_path := v\<rparr>))
      else if key = ''port'' then
        (case val of None \<Rightarrow> Inl NullDeref
         | Some v \<Rightarrow>
             (case atoi v of None \<Rightarrow> Inl IntOverflow
              | Some n \<Rightarrow> Inr (cfg\<lparr>port := n\<rparr>)))
      else if key = ''user'' then
        (case val of None \<Rightarrow> Inl NullDeref
         | Some v \<Rightarrow> Inr (cfg\<lparr>daemon_user := v\<rparr>))
      else Inr cfg)"

text \<open>
  One pass of the \<^verbatim>\<open>while (fgets(...))\<close> loop on a line already read: \<open>Inr None\<close>
  is the \<^verbatim>\<open>return false\<close> after a failed split, \<open>Inr (Some cfg)\<close> goes on to the
  next line.
\<close>

definition parse_line :: "Config \<Rightarrow> string \<Rightarrow> error + Config option" where
  "parse_line cfg line =
     (let cleaned_line = strip (c_str line)
      in if length cleaned_line = 0 \<or> hd cleaned_line = CHR ''#'' then Inr (Some cfg)
         else
           (case split_first_space cleaned_line of
              (ok, key, val) \<Rightarrow>
                if \<not> ok then Inr None
                else (case apply_key cfg key val of
                        Inl e \<Rightarrow> Inl e
                      | Inr cfg' \<Rightarrow> Inr (Some cfg'))))"

function parse_loop :: "Config \<Rightarrow> string \<Rightarrow> error + (bool \<times> Config)" where
  "parse_loop cfg rest =
     (case fgets 256 rest of
        None \<Rightarrow> Inr (True, cfg)
      | Some (line, rest') \<Rightarrow>
          (case parse_line cfg line of
             Inl e \<Rightarrow> Inl e
           | Inr None \<Rightarrow> Inr (False, cfg)
           | Inr (Some cfg') \<Rightarrow> parse_loop cfg' rest'))"
  by pat_completeness auto

termination parse_loop
proof (relation "measure (\<lambda>(cfg, rest). length rest)")
  show "wf (measure (\<lambda>(cfg, rest). length rest))"
    by simp
next
  fix cfg :: Config and rest line rest' :: string and x2 r cfg'
  assume "fgets 256 rest = Some x2" and "(line, rest') = x2"
  then have ne: "rest \<noteq> []" and r: "rest' = drop (length (take 255 (first_line rest))) rest"
    by (auto simp: fgets_def Let_def split: if_splits)
  from ne have "first_line rest \<noteq> []"
    by (cases rest) auto
  then have "0 < length (take 255 (first_line rest))"
    by (cases "first_line rest") auto
  with ne r have "length rest' < length rest"
    by simp
  then show "((cfg', rest'), (cfg, rest)) \<in> measure (\<lambda>(cfg, rest). length rest)"
    by simp
qed





text \<open>
  \<^verbatim>\<open>parse_config\<close>: \<open>env\<close> is the value of \<^verbatim>\<open>PRONOUND_CONFIG\<close> (\<open>None\<close> when unset),
  \<open>filename\<close> the argument (\<open>None\<close> for NULL). The local \<^verbatim>\<open>config_file\<close> is
  computed from both; the file opened is \<^verbatim>\<open>filename\<close>.
\<close>

definition choose_config_file :: "string option \<Rightarrow> string option \<Rightarrow> string" where
  "choose_config_file env filename =
     (case env of
        Some e \<Rightarrow> e
      | None \<Rightarrow> (case filename of Some f \<Rightarrow> f | None \<Rightarrow> ''/etc/pronound.conf''))"

definition parse_config ::
  "string option \<Rightarrow> filesystem \<Rightarrow> Config \<Rightarrow> string option \<Rightarrow> error + (bool \<times> Config)" where
  "parse_config env fs cfg filename =
     (let config_file = choose_config_file env filename
      in (case filename of
            None \<Rightarrow> Inl NullDeref
          | Some f \<Rightarrow>
              (case fopen fs f of
                 None \<Rightarrow> Inr (False, cfg)
               | Some file \<Rightarrow> parse_loop cfg file)))"

subsection \<open>The port the daemon binds\<close>





subsection \<open>One pass of the accept loop\<close>

text \<open>
  \<^verbatim>\<open>buffer[256]\<close> after \<^verbatim>\<open>read(client_sock, buffer, 255)\<close>: the bytes received
  over the bytes the buffer held before, \<open>old\<close>. The buffer is not initialised and
  no NUL is written after the bytes read; from the second pass on \<open>old\<close> is what the
  pass before left there.
\<close>

definition request_buffer :: "string \<Rightarrow> string \<Rightarrow> string" where
  "request_buffer old received =
     (let got = take 255 received in take 256 (got @ drop (length got) old))"

text \<open>
  The pass for a successful \<^verbatim>\<open>read\<close>: \<^verbatim>\<open>strip(buffer)\<close> takes the buffer as a C
  string, which ends at the first NUL the buffer holds and runs past its end when it
  holds none; the response of \<^verbatim>\<open>handle_request\<close> is what is written to the client.
\<close>

definition serve ::
  "passwd list \<Rightarrow> filesystem \<Rightarrow> Config \<Rightarrow> string \<Rightarrow> string \<Rightarrow> error + string" where
  "serve db fs cfg old received =
     (let buffer = request_buffer old received
      in if NUL \<in> set buffer then handle_request db fs cfg (strip (c_str buffer))
         else Inl OutOfBounds)"

subsection \<open>The client\<close>

text \<open>
  \<^verbatim>\<open>strtok\<close> on a string: the token found (\<open>None\<close> for NULL) and the position saved
  for the next call, here the text that follows the token's delimiter.
\<close>

definition strtok :: "string \<Rightarrow> string \<Rightarrow> string option \<times> string" where
  "strtok s delim =
     (let s1 = dropWhile (\<lambda>c. c \<in> set delim) s
      in if s1 = [] then (None, [])
         else (Some (takeWhile (\<lambda>c. c \<notin> set delim) s1),
               drop 1 (dropWhile (\<lambda>c. c \<notin> set delim) s1)))"

text \<open>What the network does for one run of the client.\<close>

record network =
  getaddrinfo_ok :: "string \<Rightarrow> string \<Rightarrow> bool"
  socket_ok :: bool
  connect_ok :: bool
  send_ok :: bool
  recv_bytes :: "string option"

text \<open>
  \<^verbatim>\<open>main\<close> of the client on \<^verbatim>\<open>argv[0] = prog\<close> and the arguments after it. The
  result is the lines written to standard error and either the exit code with the
  text printed on standard output, or an error. With no argument the usage line is
  printed and execution goes on: \<^verbatim>\<open>argv[1]\<close> is NULL, and \<^verbatim>\<open>strtok(NULL, "@")\<close>
  continues from a saved position that no earlier call has set.
\<close>

definition client_main ::
  "string \<Rightarrow> string list \<Rightarrow> network \<Rightarrow> string list \<times> (error + int \<times> string)" where
  "client_main prog args net =
     (case args of
        [] \<Rightarrow> ([''Usage: '' @ prog @ '' <username|uid>@<hostname>[:<port>]''], Inl NullDeref)
      | a1 # others \<Rightarrow>
          (case strtok a1 ''@'' of
             (username_or_uid, saved) \<Rightarrow>
               (case strtok saved '' '' of
                  (hostname, _) \<Rightarrow>
                    let port_str = (case others of [] \<Rightarrow> ''731'' | a2 # _ \<Rightarrow> a2)
                    in (case username_or_uid of
                          None \<Rightarrow> ([''Username or UID is required''], Inr (1, []))
                        | Some u \<Rightarrow>
                            (case hostname of
                               None \<Rightarrow> ([''Hostname is required''], Inr (1, []))
                             | Some h \<Rightarrow>
                                 if \<not> getaddrinfo_ok net h port_str
                                 then ([''getaddrinfo failed''], Inr (1, []))
                                 else if \<not> socket_ok net
                                 then ([''socket creation failed''], Inr (1, []))
                                 else if \<not> connect_ok net
                                 then ([''connect failed''], Inr (1, []))
                                 else if \<not> send_ok net
                                 then ([''send failed''], Inr (1, []))
                                 else (case recv_bytes net of
                                         None \<Rightarrow> ([''recv failed''], Inr (1, []))
                                       | Some response \<Rightarrow>
                                           ([], Inr (0, c_str (take 255 response)))))))))"

subsection \<open>Example inputs\<close>

text \<open>A two-account database; only the first account has a preference file.\<close>

definition db_ex :: "passwd list" where
  "db_ex = [\<lparr>pw_name = ''alice'', pw_uid = 1000, pw_dir = ''/home/alice''\<rparr>,
            \<lparr>pw_name = ''bob'', pw_uid = 1001, pw_dir = ''/home/bob''\<rparr>]"

definition fs_ex :: filesystem where
  "fs_ex = (\<lambda>p. if p = ''/home/alice/.pronouns'' then Some ''she/her  \<newline>second line\<newline>''
                 else None)"

definition fs_empty :: filesystem where
  "fs_empty = (\<lambda>p. if p = ''/home/alice/.pronouns'' then Some [] else None)"

text \<open>An empty first line for the first account, a line of blanks and a tab for the second.\<close>

definition fs_blank :: filesystem where
  "fs_blank =
     (\<lambda>p. if p = ''/home/alice/.pronouns'' then Some ''\<newline>''
          else if p = ''/home/bob/.pronouns''
          then Some [CHR '' '', CHR 0x09, CHR '' '', CHR 0x0A]
          else None)"

definition db_nobody :: "passwd list" where
  "db_nobody = [\<lparr>pw_name = ''nobody'', pw_uid = 4294967295, pw_dir = ''/nonexistent''\<rparr>]"

text \<open>Configuration files.\<close>

definition fs_port_bare :: filesystem where
  "fs_port_bare =
     (\<lambda>p. if p = ''/etc/pronound.conf'' then Some ''port\<newline>defaults they/them\<newline>''
          else None)"



definition fs_two_configs :: filesystem where
  "fs_two_configs =
     (\<lambda>p. if p = ''/etc/pronound.conf'' then Some ''defaults from etc\<newline>''
          else if p = ''/tmp/alt.conf'' then Some ''defaults from env\<newline>''
          else None)"

definition net_up :: network where
  "net_up = \<lparr>getaddrinfo_ok = (\<lambda>h p. True), socket_ok = True, connect_ok = True,
              send_ok = True, recv_bytes = Some ''she/her\<newline>''\<rparr>"

subsection \<open>The response invariant\<close>

text \<open>A string that ends in exactly one newline: its last byte is one, the byte before is not.\<close>

definition one_newline_end :: "string \<Rightarrow> bool" where
  "one_newline_end r =
     (case rev r of
        [] \<Rightarrow> False
      | c # cs \<Rightarrow> c = NL \<and> (case cs of [] \<Rightarrow> True | d # _ \<Rightarrow> d \<noteq> NL))"

section \<open>Properties\<close>

subsection \<open>\<^verbatim>\<open>strip\<close> removes the white space at both ends\<close>

lemma skip_leading_dropWhile: "skip_leading s = dropWhile is_ws s"
  by (induction s) auto

lemma back_trailing_le: "back_trailing s e \<le> e"
  by (induction e) auto

lemma back_trailing_append: "e < length xs \<Longrightarrow> back_trailing (xs @ ys) e = back_trailing xs e"
  by (induction e) (auto simp: nth_append)

lemma take_back_trailing:
  "str \<noteq> [] \<Longrightarrow> \<not> is_ws (hd str) \<Longrightarrow>
     take (back_trailing str (length str - 1) + 1) str = rev (dropWhile is_ws (rev str))"
proof (induction str rule: rev_induct)
  case Nil
  then show ?case by simp
next
  case (snoc x xs)
  show ?case
  proof (cases xs)
    case Nil
    with snoc.prems show ?thesis by simp
  next
    case (Cons y ys)
    then have ne: "xs \<noteq> []" and hd: "\<not> is_ws (hd xs)"
      using snoc.prems by auto
    from Cons have len: "length xs = Suc (length ys)" by simp
    show ?thesis
    proof (cases "is_ws x")
      case True
      have "back_trailing (xs @ [x]) (length (xs @ [x]) - 1) = back_trailing (xs @ [x]) (length ys)"
        using True len by (simp add: nth_append)
      also have "\<dots> = back_trailing xs (length xs - 1)"
        using len by (simp add: back_trailing_append)
      finally have eq: "back_trailing (xs @ [x]) (length (xs @ [x]) - 1) = back_trailing xs (length xs - 1)" .
      have "back_trailing xs (length xs - 1) + 1 \<le> length xs"
        using back_trailing_le [of xs "length xs - 1"] len by simp
      then have "take (back_trailing xs (length xs - 1) + 1) (xs @ [x]) =
          take (back_trailing xs (length xs - 1) + 1) xs"
        by simp
      with eq snoc.IH [OF ne hd] True show ?thesis by simp
    next
      case False
      then show ?thesis using len by (simp add: nth_append)
    qed
  qed
qed

lemma strip_eq: "strip s = rev (dropWhile is_ws (rev (dropWhile is_ws s)))"
proof -
  define t where "t = dropWhile is_ws s"
  have unf: "strip s = (if t = [] then [] else take (back_trailing t (length t - 1) + 1) t)"
    unfolding strip_def skip_leading_dropWhile t_def Let_def ..
  show ?thesis
  proof (cases "t = []")
    case True
    with unf show ?thesis
      unfolding t_def [symmetric] by simp
  next
    case False
    then have "\<not> is_ws (hd t)"
      unfolding t_def by (rule hd_dropWhile)
    with False have "take (back_trailing t (length t - 1) + 1) t = rev (dropWhile is_ws (rev t))"
      by (rule take_back_trailing)
    with False unf show ?thesis
      unfolding t_def [symmetric] by simp
  qed
qed

lemma strip_no_trailing_ws: "strip s \<noteq> [] \<Longrightarrow> \<not> is_ws (last (strip s))"
proof -
  assume ne: "strip s \<noteq> []"
  then have "dropWhile is_ws (rev (dropWhile is_ws s)) \<noteq> []"
    by (simp add: strip_eq)
  then have "\<not> is_ws (hd (dropWhile is_ws (rev (dropWhile is_ws s))))"
    by (rule hd_dropWhile)
  with ne show ?thesis
    by (simp add: strip_eq last_rev)
qed

lemma strip_all_ws:
  assumes "\<forall>c \<in> set s. is_ws c"
  shows "strip s = []"
proof -
  from assms have "dropWhile is_ws s = []" by simp
  then show ?thesis
    unfolding strip_eq by (simp del: dropWhile_eq_Nil_conv)
qed

subsection \<open>Numeric tokens\<close>

lemma all_digits_takeWhile: "all_digits ds \<Longrightarrow> takeWhile isdigit ds = ds"
  by (induction ds) (auto split: if_splits)

lemma dec_val_nonneg_aux: "0 \<le> a \<Longrightarrow> all_digits ds \<Longrightarrow> 0 \<le> foldl (\<lambda>acc c. 10 * acc + digit_val c) a ds"
proof (induction ds arbitrary: a)
  case Nil
  then show ?case by simp
next
  case (Cons c cs)
  from Cons.prems have d: "isdigit c" and r: "all_digits cs"
    by (auto split: if_splits)
  from d have "0 \<le> digit_val c"
    by (simp add: isdigit_def digit_val_def)
  with Cons.prems(1) have "0 \<le> 10 * a + digit_val c" by simp
  from Cons.IH [OF this r] show ?case by simp
qed

lemma dec_val_nonneg: "all_digits ds \<Longrightarrow> 0 \<le> dec_val ds"
  by (simp add: dec_val_def dec_val_nonneg_aux)

lemma is_number_minus_digits:
  assumes "ds \<noteq> []" and "all_digits ds"
  shows "is_number (CHR ''-'' # ds)"
  using assms by (simp add: is_number_def)

lemma unat_uid_of_int: "unat (word_of_int n :: uid_t) = nat (n mod 2 ^ 32)"
  by (simp add: unat_eq_nat_uint uint_word_of_int take_bit_eq_mod)


lemma atoi_minus_digits:
  assumes "all_digits ds" and "dec_val ds \<le> 2 ^ 31"
  shows "atoi (CHR ''-'' # ds) = Some (- dec_val ds)"
proof -
  have "0 \<le> dec_val ds" using assms(1) by (rule dec_val_nonneg)
  moreover have "dropWhile isspace (CHR ''-'' # ds) = CHR ''-'' # ds"
    by (simp add: isspace_def)
  ultimately show ?thesis
    using assms by (simp add: atoi_def Let_def all_digits_takeWhile INT_MIN_def INT_MAX_def)
qed





lemma all_digits_hd:
  assumes "s \<noteq> []" and "all_digits s"
  shows "isdigit (hd s)"
  using assms by (cases s) (auto split: if_splits)





lemmas eval_defs = handle_request_def resolve_def is_number_def isdigit_def getpwnam_def
  getpwuid_def fopen_def snprintf_def fgets_def NL_def NUL_def c_str_def strip_def is_ws_def
  atoi_def isspace_def dec_val_def digit_val_def INT_MIN_def INT_MAX_def user_not_found_def
  append_newline_def strip_alloc_def



subsection \<open>Unknown users\<close>




subsection \<open>A uid and its account name\<close>

text \<open>With a NUL-filled buffer before the read, the handler gets the stripped bytes received.\<close>

lemma serve_fresh_buffer:
  "serve db_ex fs_ex config (replicate 256 NUL) ''bob\<newline>'' = handle_request db_ex fs_ex config ''bob''"
  by (simp add: serve_def request_buffer_def c_str_def NUL_def strip_def is_ws_def
      takeWhile_replicate)

text \<open>
  After a longer request the bytes it left in the buffer follow the ones received and
  become part of the token.
\<close>

lemma serve_stale_buffer:
  "serve db_ex fs_ex config (''alice12\<newline>'' @ replicate 248 NUL) ''bob\<newline>''
     = handle_request db_ex fs_ex config ''bob\<newline>e12''
   \<and> handle_request db_ex fs_ex config ''bob\<newline>e12'' = Inr ''user not found\<newline>''"
  by (simp add: serve_def request_buffer_def c_str_def NUL_def strip_def is_ws_def
      takeWhile_replicate eval_defs db_ex_def)




subsection \<open>The newline at the end of a response\<close>

lemma one_newline_end_snoc: "one_newline_end (s @ [NL]) = (s = [] \<or> last s \<noteq> NL)"
  by (cases s rule: rev_cases) (auto simp: one_newline_end_def)

lemma is_ws_NL: "is_ws NL"
  by (simp add: is_ws_def NL_def)

lemma strip_one_newline_end: "one_newline_end (strip s @ [NL])"
  using strip_no_trailing_ws [of s] is_ws_NL
  by (auto simp: one_newline_end_snoc)

text \<open>
  Adding the newline needs two bytes more than the line is long; \<^verbatim>\<open>strip\<close> allocates
  one.
\<close>

lemma append_newline_room: "append_newline (length s + 2) s = Inr (s @ [NL])"
  by (simp add: append_newline_def)

lemma append_newline_strip: "append_newline (strip_alloc s) (strip s) = Inl OutOfBounds"
  by (simp add: append_newline_def strip_alloc_def)

text \<open>What \<^verbatim>\<open>handle_request\<close> does once the token has resolved to an account.\<close>

lemma handle_request_resolved:
  assumes "resolve db tok = Inr (uid, False)" and "getpwuid db uid = Some pw"
  shows "handle_request db fs cfg tok =
     (case fopen fs (snprintf 256 (pw_dir pw @ ''/'' @ file_path cfg)) of
        None \<Rightarrow> Inr (default_pronouns cfg)
      | Some file \<Rightarrow>
          (case fgets 256 file of
             Some (pronouns, _) \<Rightarrow>
               append_newline (strip_alloc (c_str pronouns)) (strip (c_str pronouns))
           | None \<Rightarrow> Inr (default_pronouns cfg)))"
  using assms by (simp add: handle_request_def Let_def split: option.splits prod.splits)

text \<open>
  The not-found text ends in exactly one newline, and so does what \<^verbatim>\<open>handle_request\<close>
  builds from a file; a default response does when the configured default does.
\<close>

lemma response_one_newline_end:
  assumes "handle_request db fs cfg tok = Inr r" and "one_newline_end (default_pronouns cfg)"
  shows "one_newline_end r"
proof -
  have u: "one_newline_end user_not_found"
    by (simp add: user_not_found_def one_newline_end_def NL_def)
  from assms u show ?thesis
    by (auto simp: handle_request_def Let_def append_newline_strip
        split: sum.splits prod.splits if_splits option.splits)
qed

text \<open>The \<^verbatim>\<open>defaults\<close> key of the configuration file stores such a default.\<close>

lemma defaults_line_one_newline_end:
  assumes "strip (c_str line) = ''defaults '' @ v"
  shows "parse_line cfg line = Inr (Some (cfg\<lparr>default_pronouns := v @ [NL]\<rparr>))
         \<and> one_newline_end (v @ [NL])"
proof -
  have sp: "split_first_space (''defaults '' @ v) = (True, ''defaults'', Some v)"
    by (simp add: split_first_space_def)
  have ak: "apply_key cfg ''defaults'' (Some v) = Inr (cfg\<lparr>default_pronouns := v @ [NL]\<rparr>)"
    by (simp add: apply_key_def)
  from assms sp ak have pl: "parse_line cfg line = Inr (Some (cfg\<lparr>default_pronouns := v @ [NL]\<rparr>))"
    by (simp add: parse_line_def)
  have "\<not> is_ws (last (strip (c_str line)))"
    using assms by (intro strip_no_trailing_ws) simp
  with assms have "\<not> is_ws (last (''defaults '' @ v))" by simp
  then have "v = [] \<or> last v \<noteq> NL"
    using is_ws_NL by (cases "v = []") auto
  with pl show ?thesis
    by (simp add: one_newline_end_snoc)
qed

text \<open>
  C1: every response ends in exactly one newline. The built-in default
  \<^verbatim>\<open>"not specified"\<close> has none: with the configuration the daemon starts from, the
  account \<^verbatim>\<open>bob\<close>, who has no preference file, is answered with a text that does not
  end in a newline.
\<close>

theorem builtin_default_lacks_newline:
  "handle_request db_ex fs_ex config ''bob'' = Inr ''not specified''
   \<and> \<not> one_newline_end ''not specified''"
  by (simp add: eval_defs db_ex_def fs_ex_def config_def one_newline_end_def)

subsection \<open>Empty and blank preference files\<close>

text \<open>
  C2, amended: for every resolved user whose preference file opens but is empty (the
  first read yields nothing), \<^verbatim>\<open>handle_request\<close> returns the configured default, as
  it does when the file is missing; a file with content, also one whose first line is
  empty or holds white space only, is not treated as missing: the handler strips what
  it read of the first line and goes on to add the newline.
\<close>

theorem empty_file_default:
  assumes "resolve db tok = Inr (uid, False)" and "getpwuid db uid = Some pw"
    and "path = snprintf 256 (pw_dir pw @ ''/'' @ file_path cfg)"
    and "fopen fs path = Some content"
    and "buf = c_str (take 255 (first_line content))"
  shows "(content = [] \<longrightarrow>
            handle_request db fs cfg tok = Inr (default_pronouns cfg)
            \<and> handle_request db (fs(path := None)) cfg tok = Inr (default_pronouns cfg))
         \<and> (content \<noteq> [] \<longrightarrow>
            handle_request db fs cfg tok = append_newline (strip_alloc buf) (strip buf))"
proof (intro conjI impI)
  assume "content = []"
  with assms show "handle_request db fs cfg tok = Inr (default_pronouns cfg)"
    by (simp add: handle_request_resolved fgets_def)
next
  from assms(1-3) show "handle_request db (fs(path := None)) cfg tok = Inr (default_pronouns cfg)"
    by (simp add: handle_request_resolved fopen_def)
next
  assume "content \<noteq> []"
  with assms show "handle_request db fs cfg tok = append_newline (strip_alloc buf) (strip buf)"
    by (simp add: handle_request_resolved fgets_def)
qed

theorem empty_file_default_witness:
  "handle_request db_ex fs_empty config ''alice'' = Inr ''not specified''
   \<and> handle_request db_ex (fs_empty(''/home/alice/.pronouns'' := None)) config ''alice''
       = Inr ''not specified''
   \<and> handle_request db_ex fs_blank config ''bob''
       = append_newline (strip_alloc [CHR '' '', CHR 0x09, CHR '' '', CHR 0x0A]) []"
proof -
  let ?alice = "\<lparr>pw_name = ''alice'', pw_uid = 1000, pw_dir = ''/home/alice''\<rparr>"
  let ?bob = "\<lparr>pw_name = ''bob'', pw_uid = 1001, pw_dir = ''/home/bob''\<rparr>"
  let ?blank = "[CHR '' '', CHR 0x09, CHR '' '', CHR 0x0A]"
  have 1: "resolve db_ex ''alice'' = Inr (1000, False)"
    by (simp add: resolve_def is_number_def isdigit_def getpwnam_def db_ex_def)
  have 2: "getpwuid db_ex 1000 = Some ?alice"
    by (simp add: getpwuid_def db_ex_def)
  have 3: "''/home/alice/.pronouns'' = snprintf 256 (pw_dir ?alice @ ''/'' @ file_path config)"
    by (simp add: snprintf_def config_def)
  have 4: "fopen fs_empty ''/home/alice/.pronouns'' = Some []"
    by (simp add: fopen_def fs_empty_def)
  have 5: "resolve db_ex ''bob'' = Inr (1001, False)"
    by (simp add: resolve_def is_number_def isdigit_def getpwnam_def db_ex_def)
  have 6: "getpwuid db_ex 1001 = Some ?bob"
    by (simp add: getpwuid_def db_ex_def)
  have 7: "''/home/bob/.pronouns'' = snprintf 256 (pw_dir ?bob @ ''/'' @ file_path config)"
    by (simp add: snprintf_def config_def)
  have 8: "fopen fs_blank ''/home/bob/.pronouns'' = Some ?blank"
    by (simp add: fopen_def fs_blank_def)
  have 9: "?blank = c_str (take 255 (first_line ?blank))"
    by (simp add: NL_def c_str_def NUL_def)
  have 10: "strip ?blank = []"
    by (simp add: strip_def is_ws_def)
  from empty_file_default [OF 1 2 3 4 refl]
  have "handle_request db_ex fs_empty config ''alice'' = Inr (default_pronouns config)"
    and "handle_request db_ex (fs_empty(''/home/alice/.pronouns'' := None)) config ''alice''
           = Inr (default_pronouns config)"
    by blast+
  moreover from empty_file_default [OF 5 6 7 8 9]
  have "handle_request db_ex fs_blank config ''bob'' = append_newline (strip_alloc ?blank) (strip ?blank)"
    by blast
  ultimately show ?thesis
    by (simp add: config_def 10)
qed

text \<open>
  A first line that is empty, or blanks and a tab, does not get the default that the
  same accounts get without a file.
\<close>

theorem blank_first_line_counterexample:
  "handle_request db_ex fs_blank config ''alice'' = Inl OutOfBounds
   \<and> handle_request db_ex fs_blank config ''bob'' = Inl OutOfBounds
   \<and> handle_request db_ex (\<lambda>p. None) config ''alice'' = Inr ''not specified''
   \<and> handle_request db_ex (\<lambda>p. None) config ''bob'' = Inr ''not specified''"
  by (simp add: eval_defs db_ex_def fs_blank_def config_def)

subsection \<open>The first line of a preference file\<close>

text \<open>
  C4: for every resolved user whose preference file has a non-empty first line, the
  response is that line with the white space at both ends removed and one newline
  appended. The handler strips the line as read into its 256-byte buffer and then
  writes the newline and a new NUL into the buffer \<^verbatim>\<open>strip\<close> returned, which has
  room for the stripped line and one NUL only: the second write lies past its end and
  the handler has no defined result, where a buffer one byte longer would give the
  stripped line and the newline.
\<close>

theorem file_response_out_of_bounds:
  assumes "resolve db tok = Inr (uid, False)" and "getpwuid db uid = Some pw"
    and "fopen fs (snprintf 256 (pw_dir pw @ ''/'' @ file_path cfg)) = Some content"
    and "content \<noteq> []"
    and "buf = c_str (take 255 (first_line content))"
  shows "handle_request db fs cfg tok = append_newline (strip_alloc buf) (strip buf)
         \<and> strip_alloc buf = length (strip buf) + 1
         \<and> append_newline (strip_alloc buf) (strip buf) = Inl OutOfBounds
         \<and> append_newline (strip_alloc buf + 1) (strip buf) = Inr (strip buf @ ''\<newline>'')
         \<and> strip buf = rev (dropWhile is_ws (rev (dropWhile is_ws buf)))"
proof (intro conjI)
  from assms show "handle_request db fs cfg tok = append_newline (strip_alloc buf) (strip buf)"
    by (simp add: handle_request_resolved fgets_def)
next
  show "strip_alloc buf = length (strip buf) + 1"
    by (simp add: strip_alloc_def)
next
  show "append_newline (strip_alloc buf) (strip buf) = Inl OutOfBounds"
    by (rule append_newline_strip)
next
  show "append_newline (strip_alloc buf + 1) (strip buf) = Inr (strip buf @ ''\<newline>'')"
    by (simp add: append_newline_def strip_alloc_def NL_def)
next
  show "strip buf = rev (dropWhile is_ws (rev (dropWhile is_ws buf)))"
    by (rule strip_eq)
qed

theorem file_response_out_of_bounds_witness:
  "handle_request db_ex fs_ex config ''alice'' = Inl OutOfBounds
   \<and> strip ''she/her  \<newline>'' = ''she/her''
   \<and> strip_alloc ''she/her  \<newline>'' = 8
   \<and> append_newline 9 ''she/her'' = Inr ''she/her\<newline>''"
proof -
  let ?pw = "\<lparr>pw_name = ''alice'', pw_uid = 1000, pw_dir = ''/home/alice''\<rparr>"
  let ?content = "''she/her  \<newline>second line\<newline>''"
  have 1: "resolve db_ex ''alice'' = Inr (1000, False)"
    by (simp add: resolve_def is_number_def isdigit_def getpwnam_def db_ex_def)
  have 2: "getpwuid db_ex 1000 = Some ?pw"
    by (simp add: getpwuid_def db_ex_def)
  have 3: "fopen fs_ex (snprintf 256 (pw_dir ?pw @ ''/'' @ file_path config)) = Some ?content"
    by (simp add: fopen_def fs_ex_def snprintf_def config_def)
  have 4: "?content \<noteq> []" by simp
  have 5: "''she/her  \<newline>'' = c_str (take 255 (first_line ?content))"
    by (simp add: c_str_def NL_def NUL_def)
  have 6: "rev (dropWhile is_ws (rev (dropWhile is_ws ''she/her  \<newline>''))) = ''she/her''"
    by (simp add: is_ws_def)
  let ?b = "''she/her  \<newline>''"
  from file_response_out_of_bounds [OF 1 2 3 4 5]
  have h: "handle_request db_ex fs_ex config ''alice'' = append_newline (strip_alloc ?b) (strip ?b)"
    and a: "strip_alloc ?b = length (strip ?b) + 1"
    and ob: "append_newline (strip_alloc ?b) (strip ?b) = Inl OutOfBounds"
    and r: "append_newline (strip_alloc ?b + 1) (strip ?b) = Inr (strip ?b @ ''\<newline>'')"
    and e: "strip ?b = rev (dropWhile is_ws (rev (dropWhile is_ws ?b)))"
    by blast+
  from e have s: "strip ?b = ''she/her''"
    unfolding 6 .
  from a have a': "strip_alloc ?b = 8"
    unfolding s by simp
  from r have r': "append_newline 9 ''she/her'' = Inr ''she/her\<newline>''"
    unfolding s a' by simp
  from h ob s a' r' show ?thesis
    by (intro conjI) simp_all
qed

subsection \<open>The configuration file\<close>

lemmas conf_defs = parse_config_def choose_config_file_def fopen_def fgets_def parse_line_def
  split_first_space_def apply_key_def strip_def c_str_def is_ws_def NL_def NUL_def
  atoi_def isspace_def isdigit_def dec_val_def digit_val_def INT_MIN_def INT_MAX_def












text \<open>
  C6: the file the loader opens is chosen with the environment variable first. The
  loader computes that choice (\<open>choose_config_file\<close>) and then opens its argument:
  with \<^verbatim>\<open>PRONOUND_CONFIG=/tmp/alt.conf\<close> the call of \<^verbatim>\<open>main\<close> still loads
  \<^verbatim>\<open>/etc/pronound.conf\<close>, and no value of the variable changes the result.
\<close>

theorem env_override_ignored:
  "choose_config_file (Some ''/tmp/alt.conf'') (Some ''/etc/pronound.conf'') = ''/tmp/alt.conf''
   \<and> parse_config (Some ''/tmp/alt.conf'') fs_two_configs config (Some ''/etc/pronound.conf'')
       = Inr (True, config\<lparr>default_pronouns := ''from etc\<newline>''\<rparr>)
   \<and> parse_config env fs cfg filename = parse_config None fs cfg filename"
proof -
  have "parse_config (Some ''/tmp/alt.conf'') fs_two_configs config (Some ''/etc/pronound.conf'')
       = Inr (True, config\<lparr>default_pronouns := ''from etc\<newline>''\<rparr>)"
    by (simp add: conf_defs fs_two_configs_def)
  moreover have "parse_config env fs cfg filename = parse_config None fs cfg filename"
    by (simp add: parse_config_def)
  ultimately show ?thesis
    by (simp add: choose_config_file_def)
qed

text \<open>
  C9: for every line of the configuration file that is exactly one of the keys
  \<^verbatim>\<open>defaults\<close>, \<^verbatim>\<open>file\<close>, \<^verbatim>\<open>port\<close> and \<^verbatim>\<open>user\<close> once stripped,
  \<^verbatim>\<open>split_first_space\<close> succeeds with a NULL value, the branch of the key reads
  through it, and parsing the line, and the file from that line on, has no defined
  result.
\<close>

theorem bare_key_null_deref:
  assumes "key \<in> {''defaults'', ''file'', ''port'', ''user''}"
    and "strip (c_str line) = key"
  shows "split_first_space key = (True, key, None)
         \<and> apply_key cfg key None = Inl NullDeref
         \<and> parse_line cfg line = Inl NullDeref
         \<and> (\<forall>rest rest'. fgets 256 rest = Some (line, rest') \<longrightarrow>
               parse_loop cfg rest = Inl NullDeref)"
proof -
  from assms(1) have sp: "split_first_space key = (True, key, None)"
    by (auto simp: split_first_space_def)
  from assms(1) have ak: "apply_key cfg key None = Inl NullDeref"
    by (auto simp: apply_key_def)
  from assms(1) have "key \<noteq> []" and "hd key \<noteq> CHR ''#''"
    by auto
  with sp ak assms(2) have pl: "parse_line cfg line = Inl NullDeref"
    by (simp add: parse_line_def)
  then have "\<forall>rest rest'. fgets 256 rest = Some (line, rest') \<longrightarrow>
               parse_loop cfg rest = Inl NullDeref"
    by simp
  with sp ak pl show ?thesis by simp
qed

theorem bare_key_null_deref_witness:
  "parse_line config ''port\<newline>'' = Inl NullDeref
   \<and> parse_config None fs_port_bare config (Some ''/etc/pronound.conf'') = Inl NullDeref"
proof -
  have k: "''port'' \<in> {''defaults'', ''file'', ''port'', ''user''}" by simp
  have s: "strip (c_str ''port\<newline>'') = ''port''"
    by (simp add: strip_def c_str_def NUL_def is_ws_def)
  have f: "fgets 256 ''port\<newline>defaults they/them\<newline>''
             = Some (''port\<newline>'', ''defaults they/them\<newline>'')"
    by (simp add: fgets_def NL_def)
  from bare_key_null_deref [OF k s, of config] f
  have "parse_line config ''port\<newline>'' = Inl NullDeref"
    and "parse_loop config ''port\<newline>defaults they/them\<newline>'' = Inl NullDeref"
    by blast+
  then show ?thesis
    by (simp add: parse_config_def fopen_def fs_port_bare_def)
qed

subsection \<open>Tokens with a minus sign\<close>

text \<open>
  C10, amended: every token made of one minus sign and one or more decimal digits is
  classified as numeric; when its value fits an \<^verbatim>\<open>int\<close> (it is at least
  \<open>- 2 ^ 31\<close>), the resolver looks up the uid equal to that value converted to
  \<^verbatim>\<open>uid_t\<close>, that is, reduced modulo \<open>2 ^ 32\<close>.
\<close>

theorem minus_token_wraps:
  assumes "ds \<noteq> []" and "all_digits ds"
  shows "is_number (CHR ''-'' # ds)
         \<and> (dec_val ds \<le> 2 ^ 31 \<longrightarrow>
              resolve db (CHR ''-'' # ds) =
                (case getpwuid db (word_of_int (- dec_val ds)) of
                   Some pw \<Rightarrow> Inr (pw_uid pw, False)
                 | None \<Rightarrow> Inr (0, True)))
         \<and> unat (word_of_int (- dec_val ds) :: uid_t) = nat ((- dec_val ds) mod 2 ^ 32)"
proof -
  have n: "is_number (CHR ''-'' # ds)"
    using assms by (rule is_number_minus_digits)
  have r: "dec_val ds \<le> 2 ^ 31 \<longrightarrow>
              resolve db (CHR ''-'' # ds) =
                (case getpwuid db (word_of_int (- dec_val ds)) of
                   Some pw \<Rightarrow> Inr (pw_uid pw, False)
                 | None \<Rightarrow> Inr (0, True))"
  proof
    assume "dec_val ds \<le> 2 ^ 31"
    with assms(2) have "atoi (CHR ''-'' # ds) = Some (- dec_val ds)"
      by (rule atoi_minus_digits)
    with n show "resolve db (CHR ''-'' # ds) =
                (case getpwuid db (word_of_int (- dec_val ds)) of
                   Some pw \<Rightarrow> Inr (pw_uid pw, False)
                 | None \<Rightarrow> Inr (0, True))"
      by (simp add: resolve_def)
  qed
  have u: "unat (word_of_int (- dec_val ds) :: uid_t) = nat ((- dec_val ds) mod 2 ^ 32)"
    by (rule unat_uid_of_int)
  from n r u show ?thesis
    by (intro conjI)
qed

theorem minus_token_wraps_witness:
  "is_number ''-1'' \<and> resolve db_nobody ''-1'' = Inr (4294967295, False)
   \<and> unat (word_of_int (- 1) :: uid_t) = 4294967295"
proof -
  have 1: "''1'' \<noteq> []" by simp
  have 2: "all_digits ''1''" by (simp add: isdigit_def)
  have v: "dec_val ''1'' = 1" by (simp add: dec_val_def digit_val_def)
  from minus_token_wraps [OF 1 2, of db_nobody] show ?thesis
    by (simp add: v getpwuid_def db_nobody_def)
qed

text \<open>
  The token \<^verbatim>\<open>-9223372036854775809\<close> is numeric, its value reduced modulo \<open>2 ^ 32\<close>
  is the uid of \<^verbatim>\<open>nobody\<close>, and the resolver has no defined result for it.
\<close>

theorem minus_token_overflow_counterexample:
  "is_number ''-9223372036854775809''
   \<and> getpwuid db_nobody (word_of_int (- 9223372036854775809)) =
       Some \<lparr>pw_name = ''nobody'', pw_uid = 4294967295, pw_dir = ''/nonexistent''\<rparr>
   \<and> resolve db_nobody ''-9223372036854775809'' = Inl IntOverflow"
  by (simp add: resolve_def is_number_def isdigit_def atoi_def isspace_def dec_val_def
      digit_val_def INT_MIN_def INT_MAX_def getpwuid_def db_nobody_def)

subsection \<open>The client's exit code\<close>

text \<open>With at least one argument the client exits with 0, or with 1 and one diagnostic.\<close>

lemma client_exit_codes:
  assumes "args \<noteq> []"
  shows "(\<exists>out. client_main prog args net = ([], Inr (0, out)))
         \<or> (\<exists>d. client_main prog args net = ([d], Inr (1, [])))"
  using assms
  by (auto simp: client_main_def Let_def split: list.splits prod.splits option.splits)

lemma client_success: "client_main ''pronoun'' [''alice@localhost''] net_up = ([], Inr (0, ''she/her\<newline>''))"
  by (simp add: client_main_def strtok_def net_up_def c_str_def NUL_def)

text \<open>
  C8: the client exits with 0 on success and with 1, after a diagnostic, on every
  argument or connection error, also when it is given no argument. Given no argument
  it prints the usage line and does not return: it goes on to \<^verbatim>\<open>strtok\<close> with
  \<^verbatim>\<open>argv[1] = NULL\<close>, which has no defined result.
\<close>

theorem client_no_argument:
  "client_main prog [] net =
     ([''Usage: '' @ prog @ '' <username|uid>@<hostname>[:<port>]''], Inl NullDeref)"
  by (simp add: client_main_def)

end
